theory Spec2Isabelle
  imports Complex_Main
begin

section \<open>E-mail verification and password reset: the verification-code lifecycle\<close>

text \<open>
  A shallow embedding of \<^verbatim>\<open>implementacao_python.py\<close>: the e-mail service of
  \<^verbatim>\<open>utils/email.py\<close> and the four Flask handlers of \<^verbatim>\<open>routes/auth.py\<close>.

  Conventions of the embedding.
  \<^item> The two module-level dictionaries \<^verbatim>\<open>verification_codes\<close> and \<^verbatim>\<open>reset_codes\<close> are
    maps from the e-mail string to a record of the two keys \<^verbatim>\<open>'code'\<close> and
    \<^verbatim>\<open>'expires_at'\<close>; every handler takes the state and returns the updated one.
  \<^item> Each reading of \<^verbatim>\<open>time.time()\<close> is an argument of the handler, a real number of
    seconds; the sum with 900 and the comparison are the exact operations on reals (the rounding of
    the floating-point sum is not modelled).
  \<^item> The value returned by \<^verbatim>\<open>random.randint(100000, 999999)\<close> is an argument too; the
    library's contract, that it lies between the two bounds, is a hypothesis wherever it
    is needed.
  \<^item> An exception is a value: a call that may raise returns \<open>Inl e\<close>, with \<open>e\<close> the text
    \<^verbatim>\<open>str(e)\<close> of the exception. The SMTP server is a function that says, for each
    request sent to it, whether the client call raises.
  \<^item> The JSON body of a request carries each field as an optional string; \<^verbatim>\<open>data.get\<close>
    gives \<^verbatim>\<open>None\<close> for an absent key.
  \<^item> The literal texts of subjects, bodies, log lines and response messages are
    constructors of datatypes, one per literal of the source.
\<close>

subsection \<open>\<^verbatim>\<open>str\<close> of an integer\<close>

definition digit_char :: "nat \<Rightarrow> char" where
  "digit_char d = char_of (48 + d)"

fun str_nat :: "nat \<Rightarrow> string" where
  "str_nat n = (if n < 10 then [digit_char n] else str_nat (n div 10) @ [digit_char (n mod 10)])"

declare str_nat.simps [simp del]

definition str_int :: "int \<Rightarrow> string" where
  "str_int i = (if i < 0 then CHR ''-'' # str_nat (nat (- i)) else str_nat (nat i))"

text \<open>Reading a string of decimal digits back, most significant digit first.\<close>

definition is_digit :: "char \<Rightarrow> bool" where
  "is_digit c \<longleftrightarrow> (48::nat) \<le> of_char c \<and> of_char c \<le> (57::nat)"

definition digit_val :: "char \<Rightarrow> nat" where
  "digit_val c = of_char c - (48::nat)"

definition decimal_val :: "string \<Rightarrow> nat" where
  "decimal_val s = foldl (\<lambda>acc c. 10 * acc + digit_val c) 0 s"

subsection \<open>\<^verbatim>\<open>utils/email.py\<close>: the e-mail service\<close>

record email_service =
  smtp_host :: string
  smtp_port :: int
  smtp_from :: string
  log_only :: bool

text \<open>
  The two subjects (\<^verbatim>\<open>'Seu codigo de verificacao'\<close>, \<^verbatim>\<open>'Recuperacao de Senha'\<close>) and the
  four f-string templates; a body is a template with the code substituted for
  \<^verbatim>\<open>{code}\<close>. Every template has text around the code, so a body is never the empty
  string.
\<close>

datatype subject = Subject_verification | Subject_password_reset

datatype template = Verification_text | Verification_html | Password_reset_text | Password_reset_html

datatype body = Body template string

datatype mime_subtype = Plain | Html

record mime_message =
  msg_from :: string
  msg_to :: string
  msg_subject :: subject
  msg_parts :: "(mime_subtype \<times> body) list"

datatype smtp_action =
    Connect string int
  | Ehlo
  | Sendmail string "string list" mime_message
  | Quit

text \<open>The server's answer to a request: \<open>Some e\<close> when the client call raises \<open>e\<close>.\<close>

type_synonym transport = "smtp_action \<Rightarrow> string option"

datatype level = INFO | WARNING | ERROR

datatype log_message =
    Log_only_no_real_send
  | Log_connected string int
  | Log_connect_error string
  | Log_only_skipped string subject
  | Log_sent string
  | Log_send_error string

subsection \<open>\<^verbatim>\<open>routes/auth.py\<close>: the state\<close>

record pending =
  code :: string
  expires_at :: real

record state =
  verification_codes :: "string \<rightharpoonup> pending"
  reset_codes :: "string \<rightharpoonup> pending"
  logger :: "(level \<times> log_message) list"
  smtp_trace :: "smtp_action list"

definition initial_state :: state where
  "initial_state =
     \<lparr>verification_codes = Map.empty, reset_codes = Map.empty, logger = [], smtp_trace = []\<rparr>"

definition log_event :: "level \<Rightarrow> log_message \<Rightarrow> state \<Rightarrow> state" where
  "log_event l m st = st\<lparr>logger := logger st @ [(l, m)]\<rparr>"

text \<open>
  One call of the SMTP client: the request reaches the transport (it is recorded in the
  trace) and the call raises when the transport says so.
\<close>

definition smtp_call :: "transport \<Rightarrow> smtp_action \<Rightarrow> state \<Rightarrow> (string + unit) \<times> state" where
  "smtp_call tr a st =
     (case tr a of Some e \<Rightarrow> Inl e | None \<Rightarrow> Inr (), st\<lparr>smtp_trace := smtp_trace st @ [a]\<rparr>)"

text \<open>
  \<^verbatim>\<open>_create_connection\<close>: \<^verbatim>\<open>None\<close> in log-only mode; otherwise connect and \<^verbatim>\<open>ehlo\<close>,
  logging and re-raising whatever either raises.
\<close>

definition create_connection :: "email_service \<Rightarrow> transport \<Rightarrow> state \<Rightarrow> (string + bool) \<times> state" where
  "create_connection svc tr st =
     (if log_only svc then (Inr False, log_event INFO Log_only_no_real_send st)
      else
        (case smtp_call tr (Connect (smtp_host svc) (smtp_port svc)) st of
           (Inl e, st1) \<Rightarrow> (Inl e, log_event ERROR (Log_connect_error e) st1)
         | (Inr _, st1) \<Rightarrow>
             (case smtp_call tr Ehlo st1 of
                (Inl e, st2) \<Rightarrow> (Inl e, log_event ERROR (Log_connect_error e) st2)
              | (Inr _, st2) \<Rightarrow>
                  (Inr True, log_event INFO (Log_connected (smtp_host svc) (smtp_port svc)) st2))))"

text \<open>
  \<^verbatim>\<open>_send_email\<close>. The message is assembled first; in log-only mode the function logs a
  warning and returns \<^verbatim>\<open>True\<close>; otherwise it connects, sends and quits inside one
  \<^verbatim>\<open>try\<close>, logging and re-raising the first exception. The connection is a boolean here:
  \<open>True\<close> for an SMTP object, \<open>False\<close> for \<^verbatim>\<open>None\<close>, on which \<^verbatim>\<open>sendmail\<close> would raise
  an attribute error.
\<close>

definition attribute_error_text :: string where
  "attribute_error_text = ''NoneType object has no attribute sendmail''"

definition send_email ::
  "email_service \<Rightarrow> transport \<Rightarrow> string \<Rightarrow> subject \<Rightarrow> body \<Rightarrow> body option \<Rightarrow> state
     \<Rightarrow> (string + bool) \<times> state" where
  "send_email svc tr to subj text html st =
     (let msg = \<lparr>msg_from = smtp_from svc, msg_to = to, msg_subject = subj,
                 msg_parts = (Plain, text) # (case html of None \<Rightarrow> [] | Some h \<Rightarrow> [(Html, h)])\<rparr>
      in
        if log_only svc then (Inr True, log_event WARNING (Log_only_skipped to subj) st)
        else
          (case create_connection svc tr st of
             (Inl e, st1) \<Rightarrow> (Inl e, log_event ERROR (Log_send_error e) st1)
           | (Inr smtp, st1) \<Rightarrow>
               if \<not> smtp then (Inl attribute_error_text, log_event ERROR (Log_send_error attribute_error_text) st1)
               else
                 (case smtp_call tr (Sendmail (smtp_from svc) [to] msg) st1 of
                    (Inl e, st2) \<Rightarrow> (Inl e, log_event ERROR (Log_send_error e) st2)
                  | (Inr _, st2) \<Rightarrow>
                      (case smtp_call tr Quit st2 of
                         (Inl e, st3) \<Rightarrow> (Inl e, log_event ERROR (Log_send_error e) st3)
                       | (Inr _, st3) \<Rightarrow> (Inr True, log_event INFO (Log_sent to) st3)))))"

definition send_verification_email ::
  "email_service \<Rightarrow> transport \<Rightarrow> string \<Rightarrow> string \<Rightarrow> state \<Rightarrow> (string + bool) \<times> state" where
  "send_verification_email svc tr to c st =
     send_email svc tr to Subject_verification (Body Verification_text c)
       (Some (Body Verification_html c)) st"

definition send_password_reset_email ::
  "email_service \<Rightarrow> transport \<Rightarrow> string \<Rightarrow> string \<Rightarrow> state \<Rightarrow> (string + bool) \<times> state" where
  "send_password_reset_email svc tr to c st =
     send_email svc tr to Subject_password_reset (Body Password_reset_text c)
       (Some (Body Password_reset_html c)) st"

subsection \<open>\<^verbatim>\<open>routes/auth.py\<close>: requests and responses\<close>

text \<open>
  The JSON body: \<^verbatim>\<open>data.get('email')\<close>, \<^verbatim>\<open>data.get('code')\<close> and
  \<^verbatim>\<open>data.get('new_password')\<close>.
\<close>

record request =
  req_email :: "string option"
  req_code :: "string option"
  req_new_password :: "string option"

text \<open>Python's \<^verbatim>\<open>not v\<close> for \<^verbatim>\<open>v\<close> a string or \<^verbatim>\<open>None\<close>: true of \<^verbatim>\<open>None\<close> and of \<^verbatim>\<open>''\<close>.\<close>

definition py_not :: "string option \<Rightarrow> bool" where
  "py_not v \<longleftrightarrow> (case v of None \<Rightarrow> True | Some s \<Rightarrow> s = [])"

text \<open>
  The messages of the responses, in the order of the source:
  \<^verbatim>\<open>'Email e obrigatorio'\<close>, \<^verbatim>\<open>'Codigo enviado para seu e-mail'\<close>,
  \<^verbatim>\<open>'Erro ao enviar e-mail: ' + str(e)\<close>, \<^verbatim>\<open>'Email e codigo sao obrigatorios'\<close>,
  \<^verbatim>\<open>'Codigo invalido ou expirado'\<close>, \<^verbatim>\<open>'Codigo expirado'\<close>, \<^verbatim>\<open>'Codigo incorreto'\<close>,
  \<^verbatim>\<open>'Codigo verificado com sucesso'\<close>, \<^verbatim>\<open>'Codigo de recuperacao enviado'\<close>,
  \<^verbatim>\<open>'Todos os campos sao obrigatorios'\<close>, \<^verbatim>\<open>'Senha atualizada com sucesso'\<close>.
  A response is \<^verbatim>\<open>jsonify({'error': m})\<close> or
  \<^verbatim>\<open>jsonify({'success': True, 'message': m})\<close>, with its HTTP status.
\<close>

datatype message =
    Email_required
  | Code_sent
  | Send_error string
  | Email_and_code_required
  | Code_invalid_or_expired
  | Code_expired
  | Code_incorrect
  | Code_verified
  | Recovery_code_sent
  | All_fields_required
  | Password_updated

datatype payload = Error message | Success message

type_synonym response = "payload \<times> nat"

subsection \<open>\<^verbatim>\<open>routes/auth.py\<close>: the handlers\<close>

text \<open>\<^verbatim>\<open>generate_code\<close>, applied to the value drawn by \<^verbatim>\<open>random.randint(100000, 999999)\<close>.\<close>

definition generate_code :: "int \<Rightarrow> string" where
  "generate_code draw = str_int draw"

definition register ::
  "email_service \<Rightarrow> transport \<Rightarrow> int \<Rightarrow> real \<Rightarrow> request \<Rightarrow> state \<Rightarrow> response \<times> state" where
  "register svc tr draw now req st =
     (let email = req_email req in
      if py_not email then ((Error Email_required, 400), st)
      else
        let c = generate_code draw;
            st1 = st\<lparr>verification_codes :=
                       (verification_codes st)(the email \<mapsto> \<lparr>code = c, expires_at = now + 900\<rparr>)\<rparr>
        in
          (case send_verification_email svc tr (the email) c st1 of
             (Inr _, st2) \<Rightarrow> ((Success Code_sent, 200), st2)
           | (Inl e, st2) \<Rightarrow> ((Error (Send_error e), 500), st2)))"

definition verify_code :: "real \<Rightarrow> request \<Rightarrow> state \<Rightarrow> response \<times> state" where
  "verify_code now req st =
     (let email = req_email req; c = req_code req in
      if py_not email \<or> py_not c then ((Error Email_and_code_required, 400), st)
      else
        (case verification_codes st (the email) of
           None \<Rightarrow> ((Error Code_invalid_or_expired, 400), st)
         | Some stored \<Rightarrow>
             if now > expires_at stored then
               ((Error Code_expired, 400),
                st\<lparr>verification_codes := (verification_codes st)(the email := None)\<rparr>)
             else if code stored \<noteq> the c then ((Error Code_incorrect, 400), st)
             else
               ((Success Code_verified, 200),
                st\<lparr>verification_codes := (verification_codes st)(the email := None)\<rparr>)))"

definition forgot_password ::
  "email_service \<Rightarrow> transport \<Rightarrow> int \<Rightarrow> real \<Rightarrow> request \<Rightarrow> state \<Rightarrow> response \<times> state" where
  "forgot_password svc tr draw now req st =
     (let email = req_email req in
      if py_not email then ((Error Email_required, 400), st)
      else
        let c = generate_code draw;
            st1 = st\<lparr>reset_codes :=
                       (reset_codes st)(the email \<mapsto> \<lparr>code = c, expires_at = now + 900\<rparr>)\<rparr>
        in
          (case send_password_reset_email svc tr (the email) c st1 of
             (Inr _, st2) \<Rightarrow> ((Success Recovery_code_sent, 200), st2)
           | (Inl e, st2) \<Rightarrow> ((Error (Send_error e), 500), st2)))"

definition reset_password :: "real \<Rightarrow> request \<Rightarrow> state \<Rightarrow> response \<times> state" where
  "reset_password now req st =
     (let email = req_email req; c = req_code req; new_password = req_new_password req in
      if py_not email \<or> py_not c \<or> py_not new_password then
        ((Error All_fields_required, 400), st)
      else
        (case reset_codes st (the email) of
           None \<Rightarrow> ((Error Code_invalid_or_expired, 400), st)
         | Some stored \<Rightarrow>
             if now > expires_at stored then
               ((Error Code_expired, 400),
                st\<lparr>reset_codes := (reset_codes st)(the email := None)\<rparr>)
             else if code stored \<noteq> the c then ((Error Code_incorrect, 400), st)
             else
               ((Success Password_updated, 200),
                st\<lparr>reset_codes := (reset_codes st)(the email := None)\<rparr>)))"

subsection \<open>The states the handlers can reach\<close>

inductive reachable :: "state \<Rightarrow> bool" where
  reachable_initial: "reachable initial_state"
| reachable_register: "reachable st \<Longrightarrow> reachable (snd (register svc tr draw now req st))"
| reachable_verify_code: "reachable st \<Longrightarrow> reachable (snd (verify_code now req st))"
| reachable_forgot_password:
    "reachable st \<Longrightarrow> reachable (snd (forgot_password svc tr draw now req st))"
| reachable_reset_password: "reachable st \<Longrightarrow> reachable (snd (reset_password now req st))"

text \<open>
  What every stored entry satisfies: its key passed the test \<^verbatim>\<open>if not email\<close> and its
  code is the \<^verbatim>\<open>str\<close> of an integer, so neither is the empty string.
\<close>

definition store_ok :: "(string \<rightharpoonup> pending) \<Rightarrow> bool" where
  "store_ok m \<longleftrightarrow> (\<forall>e p. m e = Some p \<longrightarrow> e \<noteq> [] \<and> code p \<noteq> [])"

section \<open>Properties\<close>

subsection \<open>The decimal string of a number\<close>

lemma str_nat_not_Nil: "str_nat n \<noteq> []"
  by (subst str_nat.simps) simp

lemma str_int_not_Nil: "str_int i \<noteq> []"
  by (simp add: str_int_def str_nat_not_Nil)

lemma generate_code_not_Nil: "generate_code draw \<noteq> []"
  by (simp add: generate_code_def str_int_not_Nil)

lemma length_str_nat:
  "10 ^ k \<le> n \<Longrightarrow> n < 10 ^ Suc k \<Longrightarrow> length (str_nat n) = Suc k"
proof (induction k arbitrary: n)
  case 0
  then show ?case by (subst str_nat.simps) simp
next
  case (Suc k)
  have "(10::nat) \<le> 10 ^ Suc k" by simp
  with Suc.prems(1) have ge: "10 \<le> n" by linarith
  have lo: "10 ^ k \<le> n div 10"
    using Suc.prems(1) by (simp add: less_eq_div_iff_mult_less_eq)
  have hi: "n div 10 < 10 ^ Suc k"
    using Suc.prems(2) by (simp add: div_less_iff_less_mult)
  from Suc.IH [OF lo hi] ge show ?case by (subst str_nat.simps) simp
qed

lemma is_digit_digit_char: "d < 10 \<Longrightarrow> is_digit (digit_char d)"
  by (simp add: is_digit_def digit_char_def)

lemma digit_val_digit_char: "d < 10 \<Longrightarrow> digit_val (digit_char d) = d"
  by (simp add: digit_val_def digit_char_def)

lemma str_nat_digits: "list_all is_digit (str_nat n)"
proof (induction n rule: str_nat.induct)
  case (1 n)
  show ?case
  proof (cases "n < 10")
    case True
    then show ?thesis by (subst str_nat.simps) (simp add: is_digit_digit_char)
  next
    case False
    with 1 show ?thesis by (subst str_nat.simps) (simp add: is_digit_digit_char)
  qed
qed

lemma decimal_val_snoc: "decimal_val (s @ [c]) = 10 * decimal_val s + digit_val c"
  by (simp add: decimal_val_def)

lemma decimal_val_str_nat: "decimal_val (str_nat n) = n"
proof (induction n rule: str_nat.induct)
  case (1 n)
  show ?case
  proof (cases "n < 10")
    case True
    then show ?thesis by (subst str_nat.simps) (simp add: decimal_val_def digit_val_digit_char)
  next
    case False
    with 1 show ?thesis
      by (subst str_nat.simps) (simp add: decimal_val_snoc digit_val_digit_char)
  qed
qed

lemma hd_str_nat: "0 < n \<Longrightarrow> hd (str_nat n) \<noteq> CHR ''0''"
proof (induction n rule: str_nat.induct)
  case (1 n)
  show ?case
  proof (cases "n < 10")
    case True
    have "digit_char n \<noteq> CHR ''0''"
    proof
      assume "digit_char n = CHR ''0''"
      then have "digit_val (digit_char n) = digit_val (CHR ''0'')" by simp
      with True 1(2) show False by (simp add: digit_val_digit_char) (simp add: digit_val_def)
    qed
    with True show ?thesis by (subst str_nat.simps) simp
  next
    case False
    then have "0 < n div 10" by (simp add: div_greater_zero_iff)
    with 1(1) False have "hd (str_nat (n div 10)) \<noteq> CHR ''0''" by simp
    with False show ?thesis by (subst str_nat.simps) (simp add: str_nat_not_Nil)
  qed
qed

lemma generate_code_inject:
  assumes "0 \<le> r1" and "0 \<le> r2" and "generate_code r1 = generate_code r2"
  shows "r1 = r2"
proof -
  from assms have "str_nat (nat r1) = str_nat (nat r2)"
    by (simp add: generate_code_def str_int_def)
  then have "decimal_val (str_nat (nat r1)) = decimal_val (str_nat (nat r2))" by simp
  then have "nat r1 = nat r2" by (simp add: decimal_val_str_nat)
  with assms(1,2) show ?thesis by simp
qed

subsection \<open>What the e-mail service leaves alone\<close>

lemma log_event_fields [simp]:
  "verification_codes (log_event l m st) = verification_codes st"
  "reset_codes (log_event l m st) = reset_codes st"
  "smtp_trace (log_event l m st) = smtp_trace st"
  by (simp_all add: log_event_def)

lemma smtp_call_stores [simp]:
  "verification_codes (snd (smtp_call tr a st)) = verification_codes st"
  "reset_codes (snd (smtp_call tr a st)) = reset_codes st"
  by (simp_all add: smtp_call_def)

lemma smtp_call_result [simp]:
  "fst (smtp_call tr a st) = (case tr a of Some e \<Rightarrow> Inl e | None \<Rightarrow> Inr ())"
  by (simp add: smtp_call_def)

lemma create_connection_stores [simp]:
  "verification_codes (snd (create_connection svc tr st)) = verification_codes st"
  "reset_codes (snd (create_connection svc tr st)) = reset_codes st"
  by (simp_all add: create_connection_def smtp_call_def split: option.splits)

lemma create_connection_result:
  "fst (create_connection svc tr st) = fst (create_connection svc tr st')"
  by (simp add: create_connection_def smtp_call_def split: option.splits)

lemma send_email_stores [simp]:
  "verification_codes (snd (send_email svc tr to subj text html st)) = verification_codes st"
  "reset_codes (snd (send_email svc tr to subj text html st)) = reset_codes st"
  by (simp_all add: send_email_def create_connection_def smtp_call_def Let_def
        split: option.splits)

lemma send_email_result:
  "fst (send_email svc tr to subj text html st) = fst (send_email svc tr to subj text html st')"
  by (simp add: send_email_def create_connection_def smtp_call_def Let_def
        split: option.splits)

lemma send_verification_email_stores [simp]:
  "verification_codes (snd (send_verification_email svc tr to c st)) = verification_codes st"
  "reset_codes (snd (send_verification_email svc tr to c st)) = reset_codes st"
  by (simp_all add: send_verification_email_def)

lemma send_password_reset_email_stores [simp]:
  "verification_codes (snd (send_password_reset_email svc tr to c st)) = verification_codes st"
  "reset_codes (snd (send_password_reset_email svc tr to c st)) = reset_codes st"
  by (simp_all add: send_password_reset_email_def)

lemma send_verification_email_result:
  "fst (send_verification_email svc tr to c st) = fst (send_verification_email svc tr to c st')"
  unfolding send_verification_email_def by (rule send_email_result)

subsection \<open>The stores after each handler\<close>

lemma py_not_Some [simp]: "py_not (Some s) \<longleftrightarrow> s = []"
  by (simp add: py_not_def)

lemma py_not_None [simp]: "py_not None"
  by (simp add: py_not_def)

lemma register_missing:
  "py_not (req_email req) \<Longrightarrow> register svc tr draw now req st = ((Error Email_required, 400), st)"
  by (simp add: register_def)

lemma register_snd:
  "\<not> py_not (req_email req) \<Longrightarrow>
   snd (register svc tr draw now req st) =
     snd (send_verification_email svc tr (the (req_email req)) (generate_code draw)
           (st\<lparr>verification_codes :=
                 (verification_codes st)(the (req_email req) \<mapsto>
                    \<lparr>code = generate_code draw, expires_at = now + 900\<rparr>)\<rparr>))"
  by (simp add: register_def Let_def split: prod.splits sum.splits)

lemma register_verification_codes:
  "req_email req = Some e \<Longrightarrow> e \<noteq> [] \<Longrightarrow>
   verification_codes (snd (register svc tr draw now req st)) =
     (verification_codes st)(e \<mapsto> \<lparr>code = generate_code draw, expires_at = now + 900\<rparr>)"
  by (simp add: register_snd)

lemma register_reset_codes:
  "reset_codes (snd (register svc tr draw now req st)) = reset_codes st"
  by (cases "py_not (req_email req)") (simp_all add: register_missing register_snd)

lemma forgot_password_missing:
  "py_not (req_email req) \<Longrightarrow>
   forgot_password svc tr draw now req st = ((Error Email_required, 400), st)"
  by (simp add: forgot_password_def)

lemma forgot_password_snd:
  "\<not> py_not (req_email req) \<Longrightarrow>
   snd (forgot_password svc tr draw now req st) =
     snd (send_password_reset_email svc tr (the (req_email req)) (generate_code draw)
           (st\<lparr>reset_codes :=
                 (reset_codes st)(the (req_email req) \<mapsto>
                    \<lparr>code = generate_code draw, expires_at = now + 900\<rparr>)\<rparr>))"
  by (simp add: forgot_password_def Let_def split: prod.splits sum.splits)

lemma forgot_password_reset_codes:
  "req_email req = Some e \<Longrightarrow> e \<noteq> [] \<Longrightarrow>
   reset_codes (snd (forgot_password svc tr draw now req st)) =
     (reset_codes st)(e \<mapsto> \<lparr>code = generate_code draw, expires_at = now + 900\<rparr>)"
  by (simp add: forgot_password_snd)

lemma forgot_password_verification_codes:
  "verification_codes (snd (forgot_password svc tr draw now req st)) = verification_codes st"
  by (cases "py_not (req_email req)") (simp_all add: forgot_password_missing forgot_password_snd)

lemma verify_code_reset_codes:
  "reset_codes (snd (verify_code now req st)) = reset_codes st"
  by (simp add: verify_code_def Let_def split: option.splits)

lemma reset_password_verification_codes:
  "verification_codes (snd (reset_password now req st)) = verification_codes st"
  by (simp add: reset_password_def Let_def split: option.splits)

text \<open>The four outcomes of \<^verbatim>\<open>verify_code\<close> once both fields are present.\<close>

lemma verify_code_not_found:
  "req_email req = Some e \<Longrightarrow> e \<noteq> [] \<Longrightarrow> req_code req = Some c \<Longrightarrow> c \<noteq> [] \<Longrightarrow>
   verification_codes st e = None \<Longrightarrow>
   verify_code now req st = ((Error Code_invalid_or_expired, 400), st)"
  by (simp add: verify_code_def)

lemma verify_code_expired:
  "req_email req = Some e \<Longrightarrow> e \<noteq> [] \<Longrightarrow> req_code req = Some c \<Longrightarrow> c \<noteq> [] \<Longrightarrow>
   verification_codes st e = Some p \<Longrightarrow> expires_at p < now \<Longrightarrow>
   verify_code now req st =
     ((Error Code_expired, 400), st\<lparr>verification_codes := (verification_codes st)(e := None)\<rparr>)"
  by (simp add: verify_code_def)

lemma verify_code_mismatch:
  "req_email req = Some e \<Longrightarrow> e \<noteq> [] \<Longrightarrow> req_code req = Some c \<Longrightarrow> c \<noteq> [] \<Longrightarrow>
   verification_codes st e = Some p \<Longrightarrow> \<not> expires_at p < now \<Longrightarrow> code p \<noteq> c \<Longrightarrow>
   verify_code now req st = ((Error Code_incorrect, 400), st)"
  by (simp add: verify_code_def)

lemma verify_code_success:
  "req_email req = Some e \<Longrightarrow> e \<noteq> [] \<Longrightarrow> req_code req = Some c \<Longrightarrow> c \<noteq> [] \<Longrightarrow>
   verification_codes st e = Some p \<Longrightarrow> \<not> expires_at p < now \<Longrightarrow> code p = c \<Longrightarrow>
   verify_code now req st =
     ((Success Code_verified, 200), st\<lparr>verification_codes := (verification_codes st)(e := None)\<rparr>)"
  by (simp add: verify_code_def)

lemma verify_code_missing:
  "py_not (req_email req) \<or> py_not (req_code req) \<Longrightarrow>
   verify_code now req st = ((Error Email_and_code_required, 400), st)"
  by (simp add: verify_code_def)

lemma verify_code_depends_on_verification_codes:
  "verification_codes st = verification_codes st' \<Longrightarrow>
   fst (verify_code now req st) = fst (verify_code now req st')"
  by (simp add: verify_code_def Let_def split: option.splits)

lemma reset_password_depends_on_reset_codes:
  "reset_codes st = reset_codes st' \<Longrightarrow>
   fst (reset_password now req st) = fst (reset_password now req st')"
  by (simp add: reset_password_def Let_def split: option.splits)

lemma reset_password_success:
  "req_email req = Some e \<Longrightarrow> e \<noteq> [] \<Longrightarrow> req_code req = Some c \<Longrightarrow> c \<noteq> [] \<Longrightarrow>
   req_new_password req = Some np \<Longrightarrow> np \<noteq> [] \<Longrightarrow>
   reset_codes st e = Some p \<Longrightarrow> \<not> expires_at p < now \<Longrightarrow> code p = c \<Longrightarrow>
   reset_password now req st =
     ((Success Password_updated, 200), st\<lparr>reset_codes := (reset_codes st)(e := None)\<rparr>)"
  by (simp add: reset_password_def)

lemma reset_password_expired:
  "req_email req = Some e \<Longrightarrow> e \<noteq> [] \<Longrightarrow> req_code req = Some c \<Longrightarrow> c \<noteq> [] \<Longrightarrow>
   req_new_password req = Some np \<Longrightarrow> np \<noteq> [] \<Longrightarrow>
   reset_codes st e = Some p \<Longrightarrow> expires_at p < now \<Longrightarrow>
   reset_password now req st =
     ((Error Code_expired, 400), st\<lparr>reset_codes := (reset_codes st)(e := None)\<rparr>)"
  by (simp add: reset_password_def)

subsection \<open>The invariant of the stores\<close>

lemma store_okD: "store_ok m \<Longrightarrow> m e = Some p \<Longrightarrow> e \<noteq> [] \<and> code p \<noteq> []"
  by (simp add: store_ok_def)

lemma store_ok_empty: "store_ok Map.empty"
  by (simp add: store_ok_def)

lemma store_ok_update:
  "store_ok m \<Longrightarrow> e \<noteq> [] \<Longrightarrow> code p \<noteq> [] \<Longrightarrow> store_ok (m(e \<mapsto> p))"
  by (simp add: store_ok_def)

lemma store_ok_delete: "store_ok m \<Longrightarrow> store_ok (m(e := None))"
  by (simp add: store_ok_def)

lemma register_store_ok:
  "store_ok (verification_codes st) \<Longrightarrow>
   store_ok (verification_codes (snd (register svc tr draw now req st)))"
proof (cases "py_not (req_email req)")
  case True
  assume "store_ok (verification_codes st)"
  with True show ?thesis by (simp add: register_missing)
next
  case False
  assume ok: "store_ok (verification_codes st)"
  from False obtain e where e: "req_email req = Some e" "e \<noteq> []"
    by (cases "req_email req") simp_all
  with ok show ?thesis
    by (simp add: register_verification_codes store_ok_update generate_code_not_Nil)
qed

lemma forgot_password_store_ok:
  "store_ok (reset_codes st) \<Longrightarrow>
   store_ok (reset_codes (snd (forgot_password svc tr draw now req st)))"
proof (cases "py_not (req_email req)")
  case True
  assume "store_ok (reset_codes st)"
  with True show ?thesis by (simp add: forgot_password_missing)
next
  case False
  assume ok: "store_ok (reset_codes st)"
  from False obtain e where e: "req_email req = Some e" "e \<noteq> []"
    by (cases "req_email req") simp_all
  with ok show ?thesis
    by (simp add: forgot_password_reset_codes store_ok_update generate_code_not_Nil)
qed

lemma verify_code_store_ok:
  "store_ok (verification_codes st) \<Longrightarrow>
   store_ok (verification_codes (snd (verify_code now req st)))"
  by (simp add: verify_code_def Let_def store_ok_delete split: option.splits)

lemma reset_password_store_ok:
  "store_ok (reset_codes st) \<Longrightarrow>
   store_ok (reset_codes (snd (reset_password now req st)))"
  by (simp add: reset_password_def Let_def store_ok_delete split: option.splits)

lemma reachable_store_ok:
  "reachable st \<Longrightarrow> store_ok (verification_codes st) \<and> store_ok (reset_codes st)"
proof (induction rule: reachable.induct)
  case reachable_initial
  show ?case by (simp add: initial_state_def store_ok_empty)
next
  case (reachable_register st svc tr draw now req)
  then show ?case by (simp add: register_store_ok register_reset_codes)
next
  case (reachable_verify_code st now req)
  then show ?case by (simp add: verify_code_store_ok verify_code_reset_codes)
next
  case (reachable_forgot_password st svc tr draw now req)
  then show ?case by (simp add: forgot_password_store_ok forgot_password_verification_codes)
next
  case (reachable_reset_password st now req)
  then show ?case by (simp add: reset_password_store_ok reset_password_verification_codes)
qed

section \<open>The claims\<close>

text \<open>
  Claim C1. The handler \<^verbatim>\<open>verify_code\<close> tests the registration store in a fixed order:
  no entry for the identifier gives \<^verbatim>\<open>'Codigo invalido ou expirado'\<close> (not found);
  otherwise a clock reading past the stored expiry gives \<^verbatim>\<open>'Codigo expirado'\<close> and the
  entry is deleted; otherwise a candidate different from the stored code gives
  \<^verbatim>\<open>'Codigo incorreto'\<close> and the state is unchanged; otherwise the entry is deleted and the
  answer is success with status 200. Every failure has status 400. This holds for every
  non-empty identifier and every non-empty candidate.
\<close>

theorem verify_code_checks_in_order:
  assumes "req_email req = Some e" and "e \<noteq> []" and "req_code req = Some c" and "c \<noteq> []"
  shows "(verification_codes st e = None \<longrightarrow>
            verify_code now req st = ((Error Code_invalid_or_expired, 400), st))
       \<and> (\<forall>p. verification_codes st e = Some p \<longrightarrow>
            (expires_at p < now \<longrightarrow>
               verify_code now req st =
                 ((Error Code_expired, 400),
                  st\<lparr>verification_codes := (verification_codes st)(e := None)\<rparr>))
          \<and> (\<not> expires_at p < now \<and> code p \<noteq> c \<longrightarrow>
               verify_code now req st = ((Error Code_incorrect, 400), st))
          \<and> (\<not> expires_at p < now \<and> code p = c \<longrightarrow>
               verify_code now req st =
                 ((Success Code_verified, 200),
                  st\<lparr>verification_codes := (verification_codes st)(e := None)\<rparr>)))"
  using assms
  by (simp add: verify_code_not_found verify_code_expired verify_code_mismatch
        verify_code_success)

theorem verify_code_checks_in_order_witness:
  "verify_code 10
     \<lparr>req_email = Some ''a@x.com'', req_code = Some ''123456'', req_new_password = None\<rparr>
     (initial_state\<lparr>verification_codes :=
        [''a@x.com'' \<mapsto> \<lparr>code = ''123456'', expires_at = 900\<rparr>]\<rparr>)
   = ((Success Code_verified, 200),
      initial_state\<lparr>verification_codes :=
        [''a@x.com'' \<mapsto> \<lparr>code = ''123456'', expires_at = 900\<rparr>](''a@x.com'' := None)\<rparr>)"
  using verify_code_checks_in_order
    [of "\<lparr>req_email = Some ''a@x.com'', req_code = Some ''123456'', req_new_password = None\<rparr>"
        "''a@x.com''" "''123456''"
        "initial_state\<lparr>verification_codes :=
           [''a@x.com'' \<mapsto> \<lparr>code = ''123456'', expires_at = 900\<rparr>]\<rparr>"
        10]
  by simp

text \<open>
  For every identifier and every candidate it does not hold: before the store is looked
  at, line 255 answers \<^verbatim>\<open>'Email e codigo sao obrigatorios'\<close> when either field is absent
  or the empty string. Here the identifier has no entry and the candidate is empty; the
  answer is not the one for a missing entry.
\<close>

theorem verify_code_checks_in_order_counterexample:
  "verification_codes initial_state ''a@x.com'' = None
   \<and> verify_code 0
        \<lparr>req_email = Some ''a@x.com'', req_code = Some '''', req_new_password = None\<rparr>
        initial_state
     = ((Error Email_and_code_required, 400), initial_state)
   \<and> (Error Email_and_code_required, 400) \<noteq> (Error Code_invalid_or_expired, 400::nat)"
  by (simp add: verify_code_missing initial_state_def)

text \<open>
  Claim C2. For an identifier whose stored code has not expired, verification with the
  stored code succeeds and deletes the entry; the same request sent again, at any later
  time, is answered \<^verbatim>\<open>'Codigo invalido ou expirado'\<close> (not found): the correct code
  succeeds exactly once. The store is one the handlers can produce (\<open>store_ok\<close>, which
  holds of every reachable state).
\<close>

theorem verify_code_single_use:
  assumes "store_ok (verification_codes st)"
    and "verification_codes st e = Some p"
    and "now \<le> expires_at p"
    and "req_email req = Some e"
    and "req_code req = Some (code p)"
  shows "verify_code now req st =
           ((Success Code_verified, 200),
            st\<lparr>verification_codes := (verification_codes st)(e := None)\<rparr>)
       \<and> verify_code later req (snd (verify_code now req st)) =
           ((Error Code_invalid_or_expired, 400), snd (verify_code now req st))"
proof -
  from store_okD [OF assms(1,2)] have ne: "e \<noteq> []" "code p \<noteq> []" by simp_all
  from assms(3) have "\<not> expires_at p < now" by simp
  with assms ne have first:
    "verify_code now req st =
       ((Success Code_verified, 200),
        st\<lparr>verification_codes := (verification_codes st)(e := None)\<rparr>)"
    by (simp add: verify_code_success)
  have gone: "verification_codes (snd (verify_code now req st)) e = None"
    by (simp add: first)
  from verify_code_not_found [OF assms(4) ne(1) assms(5) ne(2) gone] first
  show ?thesis by simp
qed

theorem verify_code_single_use_witness:
  "verify_code 10
     \<lparr>req_email = Some ''a@x.com'', req_code = Some ''123456'', req_new_password = None\<rparr>
     (initial_state\<lparr>verification_codes :=
        [''a@x.com'' \<mapsto> \<lparr>code = ''123456'', expires_at = 900\<rparr>]\<rparr>)
   = ((Success Code_verified, 200),
      initial_state\<lparr>verification_codes :=
        [''a@x.com'' \<mapsto> \<lparr>code = ''123456'', expires_at = 900\<rparr>](''a@x.com'' := None)\<rparr>)
   \<and> fst (verify_code 11
        \<lparr>req_email = Some ''a@x.com'', req_code = Some ''123456'', req_new_password = None\<rparr>
        (snd (verify_code 10
           \<lparr>req_email = Some ''a@x.com'', req_code = Some ''123456'', req_new_password = None\<rparr>
           (initial_state\<lparr>verification_codes :=
              [''a@x.com'' \<mapsto> \<lparr>code = ''123456'', expires_at = 900\<rparr>]\<rparr>))))
     = (Error Code_invalid_or_expired, 400)"
  using verify_code_single_use
    [of "initial_state\<lparr>verification_codes :=
           [''a@x.com'' \<mapsto> \<lparr>code = ''123456'', expires_at = 900\<rparr>]\<rparr>"
        "''a@x.com''" "\<lparr>code = ''123456'', expires_at = 900\<rparr>" 10
        "\<lparr>req_email = Some ''a@x.com'', req_code = Some ''123456'', req_new_password = None\<rparr>"
        11]
    store_ok_update [OF store_ok_empty, of "''a@x.com''" "\<lparr>code = ''123456'', expires_at = 900\<rparr>"]
  by auto

text \<open>
  Claim C3. For an identifier with a stored entry, a clock reading strictly past the
  stored expiry makes verification fail with \<^verbatim>\<open>'Codigo expirado'\<close> and deletes the entry,
  whether or not the candidate equals the stored code: the statement puts no condition
  relating the candidate to the stored code. This holds for every non-empty candidate.
\<close>

theorem verify_code_after_expiry:
  assumes "store_ok (verification_codes st)"
    and "verification_codes st e = Some p"
    and "expires_at p < now"
    and "req_email req = Some e"
    and "req_code req = Some c"
    and "c \<noteq> []"
  shows "verify_code now req st =
           ((Error Code_expired, 400),
            st\<lparr>verification_codes := (verification_codes st)(e := None)\<rparr>)
       \<and> verification_codes (snd (verify_code now req st)) e = None"
proof -
  from store_okD [OF assms(1,2)] have "e \<noteq> []" by simp
  from verify_code_expired [OF assms(4) this assms(5,6,2,3)] show ?thesis by simp
qed

theorem verify_code_after_expiry_witness:
  "verify_code 901
     \<lparr>req_email = Some ''a@x.com'', req_code = Some ''123456'', req_new_password = None\<rparr>
     (initial_state\<lparr>verification_codes :=
        [''a@x.com'' \<mapsto> \<lparr>code = ''123456'', expires_at = 900\<rparr>]\<rparr>)
   = ((Error Code_expired, 400),
      initial_state\<lparr>verification_codes :=
        [''a@x.com'' \<mapsto> \<lparr>code = ''123456'', expires_at = 900\<rparr>](''a@x.com'' := None)\<rparr>)"
  using verify_code_after_expiry
    [of "initial_state\<lparr>verification_codes :=
           [''a@x.com'' \<mapsto> \<lparr>code = ''123456'', expires_at = 900\<rparr>]\<rparr>"
        "''a@x.com''" "\<lparr>code = ''123456'', expires_at = 900\<rparr>" 901
        "\<lparr>req_email = Some ''a@x.com'', req_code = Some ''123456'', req_new_password = None\<rparr>"
        "''123456''"]
    store_ok_update [OF store_ok_empty, of "''a@x.com''" "\<lparr>code = ''123456'', expires_at = 900\<rparr>"]
  by auto

text \<open>
  For the empty candidate it does not hold: the request is rejected by the test of
  line 255, and the expired entry stays in the store.
\<close>

theorem verify_code_after_expiry_counterexample:
  "verification_codes
     (initial_state\<lparr>verification_codes :=
        [''a@x.com'' \<mapsto> \<lparr>code = ''123456'', expires_at = 900\<rparr>]\<rparr>) ''a@x.com''
     = Some \<lparr>code = ''123456'', expires_at = 900\<rparr>
   \<and> (900::real) < 901
   \<and> verify_code 901
        \<lparr>req_email = Some ''a@x.com'', req_code = Some '''', req_new_password = None\<rparr>
        (initial_state\<lparr>verification_codes :=
           [''a@x.com'' \<mapsto> \<lparr>code = ''123456'', expires_at = 900\<rparr>]\<rparr>)
     = ((Error Email_and_code_required, 400),
        initial_state\<lparr>verification_codes :=
           [''a@x.com'' \<mapsto> \<lparr>code = ''123456'', expires_at = 900\<rparr>]\<rparr>)"
  by (simp add: verify_code_missing)

text \<open>
  Claim C4. Issuing a code replaces the entry of the identifier. After two successive
  issues for a non-empty identifier, the entry of the identifier is the second code with
  the second expiry (one pending code per identifier); within that validity window a
  non-empty candidate is accepted when it is the second code and answered
  \<^verbatim>\<open>'Codigo incorreto'\<close> when it is not; in particular the first code is answered
  \<^verbatim>\<open>'Codigo incorreto'\<close> whenever the two draws differ.
\<close>

theorem register_twice:
  assumes "req_email req = Some e" and "e \<noteq> []"
    and "req_email req' = Some e" and "req_code req' = Some c" and "c \<noteq> []"
    and "now \<le> t2 + 900"
  shows "verification_codes
           (snd (register svc2 tr2 r2 t2 req (snd (register svc1 tr1 r1 t1 req st)))) e =
           Some \<lparr>code = generate_code r2, expires_at = t2 + 900\<rparr>
       \<and> (c = generate_code r2 \<longrightarrow>
            fst (verify_code now req'
                  (snd (register svc2 tr2 r2 t2 req (snd (register svc1 tr1 r1 t1 req st))))) =
              (Success Code_verified, 200))
       \<and> (c \<noteq> generate_code r2 \<longrightarrow>
            fst (verify_code now req'
                  (snd (register svc2 tr2 r2 t2 req (snd (register svc1 tr1 r1 t1 req st))))) =
              (Error Code_incorrect, 400))
       \<and> (c = generate_code r1 \<and> r1 \<noteq> r2 \<and> 100000 \<le> r1 \<and> r1 \<le> 999999
            \<and> 100000 \<le> r2 \<and> r2 \<le> 999999 \<longrightarrow>
            fst (verify_code now req'
                  (snd (register svc2 tr2 r2 t2 req (snd (register svc1 tr1 r1 t1 req st))))) =
              (Error Code_incorrect, 400))"
proof -
  let ?st2 = "snd (register svc2 tr2 r2 t2 req (snd (register svc1 tr1 r1 t1 req st)))"
  let ?p = "\<lparr>code = generate_code r2, expires_at = t2 + 900\<rparr>"
  have entry: "verification_codes ?st2 e = Some ?p"
    using assms(1,2) by (simp add: register_verification_codes)
  from assms(6) have live: "\<not> expires_at ?p < now" by simp
  have ok: "c = generate_code r2 \<Longrightarrow>
      verify_code now req' ?st2 =
        ((Success Code_verified, 200),
         ?st2\<lparr>verification_codes := (verification_codes ?st2)(e := None)\<rparr>)"
    by (rule verify_code_success [OF assms(3,2,4,5) entry live]) simp
  have bad: "c \<noteq> generate_code r2 \<Longrightarrow>
      verify_code now req' ?st2 = ((Error Code_incorrect, 400), ?st2)"
    by (rule verify_code_mismatch [OF assms(3,2,4,5) entry live]) simp
  have differ: "generate_code r1 \<noteq> generate_code r2"
    if "r1 \<noteq> r2" "100000 \<le> r1" "100000 \<le> r2"
    using that generate_code_inject [of r1 r2] by auto
  show ?thesis
    using entry ok bad differ by auto
qed

theorem register_twice_witness:
  "generate_code 123456 \<noteq> generate_code 654321
   \<and> fst (verify_code 25
         \<lparr>req_email = Some ''a@x.com'', req_code = Some (generate_code 123456),
           req_new_password = None\<rparr>
         (snd (register
                \<lparr>smtp_host = ''127.0.0.1'', smtp_port = 25,
                  smtp_from = ''no-reply@seusite.com'', log_only = True\<rparr>
                Map.empty 654321 20
                \<lparr>req_email = Some ''a@x.com'', req_code = None, req_new_password = None\<rparr>
                (snd (register
                       \<lparr>smtp_host = ''127.0.0.1'', smtp_port = 25,
                         smtp_from = ''no-reply@seusite.com'', log_only = True\<rparr>
                       Map.empty 123456 0
                       \<lparr>req_email = Some ''a@x.com'', req_code = None, req_new_password = None\<rparr>
                       initial_state)))))
     = (Error Code_incorrect, 400)"
proof -
  have d: "generate_code 123456 \<noteq> generate_code 654321"
    using generate_code_inject [of 123456 654321] by auto
  from d register_twice
    [of "\<lparr>req_email = Some ''a@x.com'', req_code = None, req_new_password = None\<rparr>"
        "''a@x.com''"
        "\<lparr>req_email = Some ''a@x.com'', req_code = Some (generate_code 123456),
          req_new_password = None\<rparr>"
        "generate_code 123456" 25 20
        "\<lparr>smtp_host = ''127.0.0.1'', smtp_port = 25,
          smtp_from = ''no-reply@seusite.com'', log_only = True\<rparr>"
        Map.empty 654321
        "\<lparr>smtp_host = ''127.0.0.1'', smtp_port = 25,
          smtp_from = ''no-reply@seusite.com'', log_only = True\<rparr>"
        Map.empty 123456 0 initial_state]
  show ?thesis by (simp add: generate_code_not_Nil)
qed

text \<open>
  That the first code is always answered \<^verbatim>\<open>'Codigo incorreto'\<close> does not hold: the two
  codes are independent draws, and nothing in \<^verbatim>\<open>register\<close> keeps them apart. When both
  draws give 123456, the code issued first is accepted after the second issue.
\<close>

theorem register_twice_counterexample:
  "fst (verify_code 25
         \<lparr>req_email = Some ''a@x.com'', req_code = Some (generate_code 123456),
           req_new_password = None\<rparr>
         (snd (register
                \<lparr>smtp_host = ''127.0.0.1'', smtp_port = 25,
                  smtp_from = ''no-reply@seusite.com'', log_only = True\<rparr>
                Map.empty 123456 20
                \<lparr>req_email = Some ''a@x.com'', req_code = None, req_new_password = None\<rparr>
                (snd (register
                       \<lparr>smtp_host = ''127.0.0.1'', smtp_port = 25,
                         smtp_from = ''no-reply@seusite.com'', log_only = True\<rparr>
                       Map.empty 123456 0
                       \<lparr>req_email = Some ''a@x.com'', req_code = None, req_new_password = None\<rparr>
                       initial_state)))))
   = (Success Code_verified, 200)"
  by (simp add: verify_code_def Let_def register_verification_codes generate_code_not_Nil)

text \<open>
  Claim C5. For an identifier with an unexpired stored code, a candidate different from
  the stored code is answered \<^verbatim>\<open>'Codigo incorreto'\<close> and the state is unchanged, so a later
  verification with the stored code, still within the validity window, succeeds. This
  holds for every non-empty candidate.
\<close>

theorem verify_code_wrong_candidate:
  assumes "store_ok (verification_codes st)"
    and "verification_codes st e = Some p"
    and "now \<le> expires_at p"
    and "req_email req = Some e"
    and "req_code req = Some c"
    and "c \<noteq> []"
    and "c \<noteq> code p"
    and "later \<le> expires_at p"
    and "req_email req' = Some e"
    and "req_code req' = Some (code p)"
  shows "verify_code now req st = ((Error Code_incorrect, 400), st)
       \<and> fst (verify_code later req' (snd (verify_code now req st))) =
           (Success Code_verified, 200)"
proof -
  from store_okD [OF assms(1,2)] have ne: "e \<noteq> []" "code p \<noteq> []" by simp_all
  from assms(3) have a: "\<not> expires_at p < now" by simp
  from assms(8) have b: "\<not> expires_at p < later" by simp
  from assms(7) have c: "code p \<noteq> c" by simp
  have first: "verify_code now req st = ((Error Code_incorrect, 400), st)"
    by (rule verify_code_mismatch [OF assms(4) ne(1) assms(5,6,2) a c])
  have "verify_code later req' st =
          ((Success Code_verified, 200),
           st\<lparr>verification_codes := (verification_codes st)(e := None)\<rparr>)"
    by (rule verify_code_success [OF assms(9) ne(1) assms(10) ne(2) assms(2) b refl])
  with first show ?thesis by simp
qed

theorem verify_code_wrong_candidate_witness:
  "verify_code 10
     \<lparr>req_email = Some ''a@x.com'', req_code = Some ''000000'', req_new_password = None\<rparr>
     (initial_state\<lparr>verification_codes :=
        [''a@x.com'' \<mapsto> \<lparr>code = ''123456'', expires_at = 900\<rparr>]\<rparr>)
   = ((Error Code_incorrect, 400),
      initial_state\<lparr>verification_codes :=
        [''a@x.com'' \<mapsto> \<lparr>code = ''123456'', expires_at = 900\<rparr>]\<rparr>)
   \<and> fst (verify_code 20
        \<lparr>req_email = Some ''a@x.com'', req_code = Some ''123456'', req_new_password = None\<rparr>
        (snd (verify_code 10
           \<lparr>req_email = Some ''a@x.com'', req_code = Some ''000000'', req_new_password = None\<rparr>
           (initial_state\<lparr>verification_codes :=
              [''a@x.com'' \<mapsto> \<lparr>code = ''123456'', expires_at = 900\<rparr>]\<rparr>))))
     = (Success Code_verified, 200)"
  using verify_code_wrong_candidate
    [of "initial_state\<lparr>verification_codes :=
           [''a@x.com'' \<mapsto> \<lparr>code = ''123456'', expires_at = 900\<rparr>]\<rparr>"
        "''a@x.com''" "\<lparr>code = ''123456'', expires_at = 900\<rparr>" 10
        "\<lparr>req_email = Some ''a@x.com'', req_code = Some ''000000'', req_new_password = None\<rparr>"
        "''000000''" 20
        "\<lparr>req_email = Some ''a@x.com'', req_code = Some ''123456'', req_new_password = None\<rparr>"]
    store_ok_update [OF store_ok_empty, of "''a@x.com''" "\<lparr>code = ''123456'', expires_at = 900\<rparr>"]
  by auto

text \<open>
  For the empty candidate, which differs from every stored code, it does not hold: the
  answer is \<^verbatim>\<open>'Email e codigo sao obrigatorios'\<close>, by the test of line 255.
\<close>

theorem verify_code_wrong_candidate_counterexample:
  "verification_codes
     (initial_state\<lparr>verification_codes :=
        [''a@x.com'' \<mapsto> \<lparr>code = ''123456'', expires_at = 900\<rparr>]\<rparr>) ''a@x.com''
     = Some \<lparr>code = ''123456'', expires_at = 900\<rparr>
   \<and> (10::real) \<le> 900
   \<and> '''' \<noteq> ''123456''
   \<and> fst (verify_code 10
        \<lparr>req_email = Some ''a@x.com'', req_code = Some '''', req_new_password = None\<rparr>
        (initial_state\<lparr>verification_codes :=
           [''a@x.com'' \<mapsto> \<lparr>code = ''123456'', expires_at = 900\<rparr>]\<rparr>))
     = (Error Email_and_code_required, 400)
   \<and> (Error Email_and_code_required, 400) \<noteq> (Error Code_incorrect, 400::nat)"
  by (simp add: verify_code_missing)

text \<open>
  Claim C6. Whatever value in \<open>[100000, 999999]\<close> \<^verbatim>\<open>random.randint\<close> draws, the generated
  code is the decimal string of that value: exactly six characters, all of them digits,
  the first one not \<^verbatim>\<open>0\<close> (so no zero-padding is involved), and reading the string back
  gives the drawn value. The issuing handlers (\<^verbatim>\<open>register\<close> for the registration flow,
  \<^verbatim>\<open>forgot_password\<close> for the reset flow) store exactly that string under the requested
  e-mail, with an expiry equal to the clock reading at issue plus 900 seconds.
\<close>

theorem generate_code_six_digits:
  assumes "100000 \<le> r" and "r \<le> 999999" and "req_email req = Some e" and "e \<noteq> []"
  shows "length (generate_code r) = 6
       \<and> list_all is_digit (generate_code r)
       \<and> hd (generate_code r) \<noteq> CHR ''0''
       \<and> int (decimal_val (generate_code r)) = r
       \<and> verification_codes (snd (register svc tr r now req st)) e =
           Some \<lparr>code = generate_code r, expires_at = now + 900\<rparr>
       \<and> reset_codes (snd (forgot_password svc tr r now req st)) e =
           Some \<lparr>code = generate_code r, expires_at = now + 900\<rparr>"
proof -
  from assms(1) have g: "generate_code r = str_nat (nat r)"
    by (simp add: generate_code_def str_int_def)
  have "10 ^ 5 \<le> nat r" and "nat r < 10 ^ Suc 5"
    using assms(1,2) by simp_all
  then have len: "length (str_nat (nat r)) = Suc 5" by (rule length_str_nat)
  have pos: "0 < nat r" using assms(1) by simp
  show ?thesis
    using assms g len pos
    by (simp add: str_nat_digits hd_str_nat decimal_val_str_nat
          register_verification_codes forgot_password_reset_codes)
qed

theorem generate_code_six_digits_witness:
  "length (generate_code 123456) = 6
   \<and> int (decimal_val (generate_code 123456)) = 123456
   \<and> verification_codes
        (snd (register
               \<lparr>smtp_host = ''127.0.0.1'', smtp_port = 25, smtp_from = ''no-reply@seusite.com'',
                 log_only = True\<rparr>
               Map.empty 123456 0
               \<lparr>req_email = Some ''a@x.com'', req_code = None, req_new_password = None\<rparr>
               initial_state)) ''a@x.com'' =
       Some \<lparr>code = generate_code 123456, expires_at = 900\<rparr>"
  using generate_code_six_digits
    [of 123456 "\<lparr>req_email = Some ''a@x.com'', req_code = None, req_new_password = None\<rparr>"
        "''a@x.com''"
        "\<lparr>smtp_host = ''127.0.0.1'', smtp_port = 25, smtp_from = ''no-reply@seusite.com'',
          log_only = True\<rparr>"
        Map.empty 0 initial_state]
  by simp

text \<open>
  Claim C7. With the log-only flag set, \<^verbatim>\<open>_send_email\<close> returns \<^verbatim>\<open>True\<close> without raising, for
  every destination, subject and body and whatever the SMTP server would answer; its only
  effect is one warning in the log. So \<^verbatim>\<open>send_verification_email\<close> (and
  \<^verbatim>\<open>send_password_reset_email\<close>) returns \<^verbatim>\<open>True\<close> for every address and code and makes no
  SMTP call at all: the trace of SMTP calls is unchanged.
\<close>

theorem send_email_log_only:
  assumes "log_only svc"
  shows "send_email svc tr to subj text html st =
           (Inr True, log_event WARNING (Log_only_skipped to subj) st)
       \<and> fst (send_verification_email svc tr to c st) = Inr True
       \<and> smtp_trace (snd (send_verification_email svc tr to c st)) = smtp_trace st
       \<and> fst (send_password_reset_email svc tr to c st) = Inr True
       \<and> smtp_trace (snd (send_password_reset_email svc tr to c st)) = smtp_trace st"
  using assms
  by (simp add: send_email_def send_verification_email_def send_password_reset_email_def)

theorem send_email_log_only_witness:
  "log_only \<lparr>smtp_host = ''127.0.0.1'', smtp_port = 25, smtp_from = ''no-reply@seusite.com'',
             log_only = True\<rparr>
   \<and> fst (send_verification_email
            \<lparr>smtp_host = ''127.0.0.1'', smtp_port = 25, smtp_from = ''no-reply@seusite.com'',
              log_only = True\<rparr>
            [Connect ''127.0.0.1'' 25 \<mapsto> ''Connection refused'']
            ''a@x.com'' ''123456'' initial_state) = Inr True
   \<and> smtp_trace (snd (send_verification_email
            \<lparr>smtp_host = ''127.0.0.1'', smtp_port = 25, smtp_from = ''no-reply@seusite.com'',
              log_only = True\<rparr>
            [Connect ''127.0.0.1'' 25 \<mapsto> ''Connection refused'']
            ''a@x.com'' ''123456'' initial_state)) = []"
  using send_email_log_only
    [of "\<lparr>smtp_host = ''127.0.0.1'', smtp_port = 25, smtp_from = ''no-reply@seusite.com'',
           log_only = True\<rparr>"
        "[Connect ''127.0.0.1'' 25 \<mapsto> ''Connection refused'']"
        "''a@x.com''" Subject_verification "Body Verification_text ''123456''"
        "Some (Body Verification_html ''123456'')" initial_state "''123456''"]
  by (simp add: initial_state_def)

text \<open>
  Claim C8. The two flows keep separate stores. \<^verbatim>\<open>register\<close> and \<^verbatim>\<open>verify_code\<close> leave
  \<^verbatim>\<open>reset_codes\<close> unchanged; \<^verbatim>\<open>forgot_password\<close> and \<^verbatim>\<open>reset_password\<close> leave
  \<^verbatim>\<open>verification_codes\<close> unchanged. Hence the answer of \<^verbatim>\<open>verify_code\<close> is the same after a
  \<^verbatim>\<open>forgot_password\<close> as before it, and the answer of \<^verbatim>\<open>reset_password\<close> is the same after
  a \<^verbatim>\<open>register\<close> as before it. So the code issued by \<^verbatim>\<open>forgot_password\<close> is accepted by
  \<^verbatim>\<open>verify_code\<close> for an identifier exactly when the registration store already held that
  same code, unexpired, for that identifier before the issue; and the code issued by
  \<^verbatim>\<open>register\<close> is accepted by \<^verbatim>\<open>reset_password\<close> exactly when the reset store already held
  it, unexpired, and a new password is given.
\<close>

theorem stores_disjoint:
  "reset_codes (snd (register svc tr r t req st)) = reset_codes st
   \<and> reset_codes (snd (verify_code now req st)) = reset_codes st
   \<and> verification_codes (snd (forgot_password svc tr r t req st)) = verification_codes st
   \<and> verification_codes (snd (reset_password now req st)) = verification_codes st
   \<and> fst (verify_code now req' (snd (forgot_password svc tr r t req st))) =
       fst (verify_code now req' st)
   \<and> fst (reset_password now req' (snd (register svc tr r t req st))) =
       fst (reset_password now req' st)
   \<and> (req_email req' = Some e \<and> req_code req' = Some (generate_code r) \<longrightarrow>
        (fst (verify_code now req' (snd (forgot_password svc tr r t req st))) =
           (Success Code_verified, 200)
         \<longleftrightarrow> e \<noteq> [] \<and>
             (case verification_codes st e of
                None \<Rightarrow> False
              | Some p \<Rightarrow> \<not> expires_at p < now \<and> code p = generate_code r)))
   \<and> (req_email req' = Some e \<and> req_code req' = Some (generate_code r) \<longrightarrow>
        (fst (reset_password now req' (snd (register svc tr r t req st))) =
           (Success Password_updated, 200)
         \<longleftrightarrow> e \<noteq> [] \<and> \<not> py_not (req_new_password req') \<and>
             (case reset_codes st e of
                None \<Rightarrow> False
              | Some p \<Rightarrow> \<not> expires_at p < now \<and> code p = generate_code r)))"
proof -
  have v: "fst (verify_code now req' (snd (forgot_password svc tr r t req st))) =
           fst (verify_code now req' st)"
    by (rule verify_code_depends_on_verification_codes)
       (rule forgot_password_verification_codes)
  have p: "fst (reset_password now req' (snd (register svc tr r t req st))) =
           fst (reset_password now req' st)"
    by (rule reset_password_depends_on_reset_codes) (rule register_reset_codes)
  have av: "fst (verify_code now req' st) = (Success Code_verified, 200)
        \<longleftrightarrow> e \<noteq> [] \<and>
            (case verification_codes st e of
               None \<Rightarrow> False
             | Some p \<Rightarrow> \<not> expires_at p < now \<and> code p = generate_code r)"
    if "req_email req' = Some e" "req_code req' = Some (generate_code r)"
    using that
    by (simp add: verify_code_def Let_def generate_code_not_Nil split: option.splits)
  have ap: "fst (reset_password now req' st) = (Success Password_updated, 200)
        \<longleftrightarrow> e \<noteq> [] \<and> \<not> py_not (req_new_password req') \<and>
            (case reset_codes st e of
               None \<Rightarrow> False
             | Some p \<Rightarrow> \<not> expires_at p < now \<and> code p = generate_code r)"
    if "req_email req' = Some e" "req_code req' = Some (generate_code r)"
    using that
    by (simp add: reset_password_def Let_def generate_code_not_Nil split: option.splits)
  have frame:
    "reset_codes (snd (register svc tr r t req st)) = reset_codes st"
    "reset_codes (snd (verify_code now req st)) = reset_codes st"
    "verification_codes (snd (forgot_password svc tr r t req st)) = verification_codes st"
    "verification_codes (snd (reset_password now req st)) = verification_codes st"
    by (simp_all add: register_reset_codes verify_code_reset_codes
          forgot_password_verification_codes reset_password_verification_codes)
  from av v have cv:
    "req_email req' = Some e \<and> req_code req' = Some (generate_code r) \<longrightarrow>
        (fst (verify_code now req' (snd (forgot_password svc tr r t req st))) =
           (Success Code_verified, 200)
         \<longleftrightarrow> e \<noteq> [] \<and>
             (case verification_codes st e of
                None \<Rightarrow> False
              | Some p \<Rightarrow> \<not> expires_at p < now \<and> code p = generate_code r))"
    by simp
  from ap p have cp:
    "req_email req' = Some e \<and> req_code req' = Some (generate_code r) \<longrightarrow>
        (fst (reset_password now req' (snd (register svc tr r t req st))) =
           (Success Password_updated, 200)
         \<longleftrightarrow> e \<noteq> [] \<and> \<not> py_not (req_new_password req') \<and>
             (case reset_codes st e of
                None \<Rightarrow> False
              | Some p \<Rightarrow> \<not> expires_at p < now \<and> code p = generate_code r))"
    by simp
  from frame v p cv cp show ?thesis by (intro conjI)
qed

theorem stores_disjoint_witness:
  "fst (verify_code 10
         \<lparr>req_email = Some ''a@x.com'', req_code = Some (generate_code 123456),
           req_new_password = None\<rparr>
         (snd (forgot_password
                \<lparr>smtp_host = ''127.0.0.1'', smtp_port = 25,
                  smtp_from = ''no-reply@seusite.com'', log_only = True\<rparr>
                Map.empty 123456 0
                \<lparr>req_email = Some ''a@x.com'', req_code = None, req_new_password = None\<rparr>
                initial_state)))
   \<noteq> (Success Code_verified, 200)"
  using stores_disjoint
    [of "\<lparr>smtp_host = ''127.0.0.1'', smtp_port = 25,
          smtp_from = ''no-reply@seusite.com'', log_only = True\<rparr>"
        Map.empty 123456 0
        "\<lparr>req_email = Some ''a@x.com'', req_code = None, req_new_password = None\<rparr>"
        initial_state 10
        "\<lparr>req_email = Some ''a@x.com'', req_code = Some (generate_code 123456),
          req_new_password = None\<rparr>"
        "''a@x.com''"]
  by (auto simp add: initial_state_def)

text \<open>
  That a code issued in one flow is never accepted by the other does not hold: the codes
  of the two flows are independent draws from the same range. When \<^verbatim>\<open>register\<close> and
  \<^verbatim>\<open>forgot_password\<close> both draw 123456 for the same e-mail, the code issued by
  \<^verbatim>\<open>forgot_password\<close> is accepted by \<^verbatim>\<open>verify_code\<close>, and the code issued by \<^verbatim>\<open>register\<close>
  is accepted by \<^verbatim>\<open>reset_password\<close>.
\<close>

theorem stores_disjoint_counterexample:
  "fst (verify_code 10
         \<lparr>req_email = Some ''a@x.com'', req_code = Some (generate_code 123456),
           req_new_password = None\<rparr>
         (snd (forgot_password
                \<lparr>smtp_host = ''127.0.0.1'', smtp_port = 25,
                  smtp_from = ''no-reply@seusite.com'', log_only = True\<rparr>
                Map.empty 123456 5
                \<lparr>req_email = Some ''a@x.com'', req_code = None, req_new_password = None\<rparr>
                (snd (register
                       \<lparr>smtp_host = ''127.0.0.1'', smtp_port = 25,
                         smtp_from = ''no-reply@seusite.com'', log_only = True\<rparr>
                       Map.empty 123456 0
                       \<lparr>req_email = Some ''a@x.com'', req_code = None, req_new_password = None\<rparr>
                       initial_state)))))
   = (Success Code_verified, 200)
   \<and> fst (reset_password 10
         \<lparr>req_email = Some ''a@x.com'', req_code = Some (generate_code 123456),
           req_new_password = Some ''novaSenha123''\<rparr>
         (snd (register
                \<lparr>smtp_host = ''127.0.0.1'', smtp_port = 25,
                  smtp_from = ''no-reply@seusite.com'', log_only = True\<rparr>
                Map.empty 123456 5
                \<lparr>req_email = Some ''a@x.com'', req_code = None, req_new_password = None\<rparr>
                (snd (forgot_password
                       \<lparr>smtp_host = ''127.0.0.1'', smtp_port = 25,
                         smtp_from = ''no-reply@seusite.com'', log_only = True\<rparr>
                       Map.empty 123456 0
                       \<lparr>req_email = Some ''a@x.com'', req_code = None, req_new_password = None\<rparr>
                       initial_state)))))
   = (Success Password_updated, 200)"
  by (simp add: verify_code_def reset_password_def Let_def
        forgot_password_verification_codes register_verification_codes
        register_reset_codes forgot_password_reset_codes generate_code_not_Nil)

text \<open>
  Claim C9. The comparison with the expiry is strict, in \<^verbatim>\<open>verify_code\<close> (line 265) and in
  \<^verbatim>\<open>reset_password\<close> (line 326) alike: with the stored code as candidate, a clock
  reading equal to the stored expiry still succeeds, and the answer is \<^verbatim>\<open>'Codigo expirado'\<close>
  exactly when the clock reading is strictly greater than the expiry. So a code issued by
  \<^verbatim>\<open>register\<close> at time \<open>t\<close> is still accepted at \<open>t + 900\<close>.
\<close>

theorem expiry_comparison_strict:
  "(store_ok (verification_codes st) \<and> verification_codes st e = Some p
      \<and> req_email req = Some e \<and> req_code req = Some (code p) \<longrightarrow>
      (now = expires_at p \<longrightarrow> fst (verify_code now req st) = (Success Code_verified, 200))
    \<and> (fst (verify_code now req st) = (Error Code_expired, 400) \<longleftrightarrow> expires_at p < now))
   \<and> (store_ok (reset_codes st) \<and> reset_codes st e = Some p
      \<and> req_email req = Some e \<and> req_code req = Some (code p)
      \<and> req_new_password req = Some np \<and> np \<noteq> [] \<longrightarrow>
      (now = expires_at p \<longrightarrow> fst (reset_password now req st) = (Success Password_updated, 200))
    \<and> (fst (reset_password now req st) = (Error Code_expired, 400) \<longleftrightarrow> expires_at p < now))
   \<and> (req_email req = Some e \<and> e \<noteq> [] \<and> req_email req' = Some e
      \<and> req_code req' = Some (generate_code r) \<longrightarrow>
      fst (verify_code (t + 900) req' (snd (register svc tr r t req st))) =
        (Success Code_verified, 200))"
proof -
  have a: "fst (verify_code now req st) =
             (if expires_at p < now then (Error Code_expired, 400) else (Success Code_verified, 200))"
    if "store_ok (verification_codes st)" "verification_codes st e = Some p"
       "req_email req = Some e" "req_code req = Some (code p)"
  proof -
    from store_okD [OF that(1,2)] have "e \<noteq> []" "code p \<noteq> []" by simp_all
    with that show ?thesis by (simp add: verify_code_def)
  qed
  have b: "fst (reset_password now req st) =
             (if expires_at p < now then (Error Code_expired, 400)
              else (Success Password_updated, 200))"
    if "store_ok (reset_codes st)" "reset_codes st e = Some p"
       "req_email req = Some e" "req_code req = Some (code p)"
       "req_new_password req = Some np" "np \<noteq> []"
  proof -
    from store_okD [OF that(1,2)] have "e \<noteq> []" "code p \<noteq> []" by simp_all
    with that show ?thesis by (simp add: reset_password_def)
  qed
  have c: "fst (verify_code (t + 900) req' (snd (register svc tr r t req st))) =
             (Success Code_verified, 200)"
    if "req_email req = Some e" "e \<noteq> []" "req_email req' = Some e"
       "req_code req' = Some (generate_code r)"
    using that
    by (simp add: verify_code_def register_verification_codes generate_code_not_Nil)
  show ?thesis
    using a b c by auto
qed

theorem expiry_comparison_strict_witness:
  "fst (verify_code 900
         \<lparr>req_email = Some ''a@x.com'', req_code = Some ''123456'', req_new_password = None\<rparr>
         (initial_state\<lparr>verification_codes :=
            [''a@x.com'' \<mapsto> \<lparr>code = ''123456'', expires_at = 900\<rparr>]\<rparr>))
   = (Success Code_verified, 200)"
  using expiry_comparison_strict
    [of "initial_state\<lparr>verification_codes :=
           [''a@x.com'' \<mapsto> \<lparr>code = ''123456'', expires_at = 900\<rparr>]\<rparr>"
        "''a@x.com''" "\<lparr>code = ''123456'', expires_at = 900\<rparr>"
        "\<lparr>req_email = Some ''a@x.com'', req_code = Some ''123456'', req_new_password = None\<rparr>"
        900]
    store_ok_update [OF store_ok_empty, of "''a@x.com''" "\<lparr>code = ''123456'', expires_at = 900\<rparr>"]
  by auto

text \<open>
  Claim C10. \<^verbatim>\<open>register\<close> writes the new code and expiry into the store before it tries to
  send the e-mail. When sending raises, the response is the status 500 with
  \<^verbatim>\<open>'Erro ao enviar e-mail: ...'\<close>, and yet the entry of the identifier is the newly
  generated code (whatever entry was there before), which a later \<^verbatim>\<open>verify_code\<close> within the
  validity window accepts.
\<close>

theorem register_stores_before_sending:
  assumes "req_email req = Some e" and "e \<noteq> []"
    and "fst (send_verification_email svc tr e (generate_code r) st) = Inl err"
  shows "fst (register svc tr r t req st) = (Error (Send_error err), 500)
       \<and> verification_codes (snd (register svc tr r t req st)) e =
           Some \<lparr>code = generate_code r, expires_at = t + 900\<rparr>
       \<and> (req_email req' = Some e \<and> req_code req' = Some (generate_code r) \<and> now \<le> t + 900 \<longrightarrow>
            fst (verify_code now req' (snd (register svc tr r t req st))) =
              (Success Code_verified, 200))"
proof -
  let ?st1 = "st\<lparr>verification_codes :=
                  (verification_codes st)(e \<mapsto> \<lparr>code = generate_code r, expires_at = t + 900\<rparr>)\<rparr>"
  have "fst (send_verification_email svc tr e (generate_code r) ?st1) =
        fst (send_verification_email svc tr e (generate_code r) st)"
    by (rule send_verification_email_result)
  with assms(3) have raises: "fst (send_verification_email svc tr e (generate_code r) ?st1) = Inl err"
    by simp
  have resp: "fst (register svc tr r t req st) = (Error (Send_error err), 500)"
    using assms(1,2) raises
    by (auto simp add: register_def Let_def split: prod.splits sum.splits)
  have entry: "verification_codes (snd (register svc tr r t req st)) e =
                 Some \<lparr>code = generate_code r, expires_at = t + 900\<rparr>"
    using assms(1,2) by (simp add: register_verification_codes)
  have ok: "fst (verify_code now req' (snd (register svc tr r t req st))) =
              (Success Code_verified, 200)"
    if "req_email req' = Some e" "req_code req' = Some (generate_code r)" "now \<le> t + 900"
    using that assms(2) entry by (simp add: verify_code_def generate_code_not_Nil)
  from resp entry ok show ?thesis by simp
qed

theorem register_stores_before_sending_witness:
  "fst (register
         \<lparr>smtp_host = ''127.0.0.1'', smtp_port = 25, smtp_from = ''no-reply@seusite.com'',
           log_only = False\<rparr>
         [Connect ''127.0.0.1'' 25 \<mapsto> ''Connection refused''] 123456 0
         \<lparr>req_email = Some ''a@x.com'', req_code = None, req_new_password = None\<rparr>
         initial_state)
   = (Error (Send_error ''Connection refused''), 500)
   \<and> fst (verify_code 10
         \<lparr>req_email = Some ''a@x.com'', req_code = Some (generate_code 123456),
           req_new_password = None\<rparr>
         (snd (register
                \<lparr>smtp_host = ''127.0.0.1'', smtp_port = 25,
                  smtp_from = ''no-reply@seusite.com'', log_only = False\<rparr>
                [Connect ''127.0.0.1'' 25 \<mapsto> ''Connection refused''] 123456 0
                \<lparr>req_email = Some ''a@x.com'', req_code = None, req_new_password = None\<rparr>
                initial_state)))
     = (Success Code_verified, 200)"
proof -
  have raises:
    "fst (send_verification_email
           \<lparr>smtp_host = ''127.0.0.1'', smtp_port = 25, smtp_from = ''no-reply@seusite.com'',
             log_only = False\<rparr>
           [Connect ''127.0.0.1'' 25 \<mapsto> ''Connection refused'']
           ''a@x.com'' (generate_code 123456) initial_state) = Inl ''Connection refused''"
    by (simp add: send_verification_email_def send_email_def create_connection_def smtp_call_def)
  from register_stores_before_sending
    [of "\<lparr>req_email = Some ''a@x.com'', req_code = None, req_new_password = None\<rparr>"
        "''a@x.com''"
        "\<lparr>smtp_host = ''127.0.0.1'', smtp_port = 25, smtp_from = ''no-reply@seusite.com'',
          log_only = False\<rparr>"
        "[Connect ''127.0.0.1'' 25 \<mapsto> ''Connection refused'']"
        123456 initial_state "''Connection refused''" 0
        "\<lparr>req_email = Some ''a@x.com'', req_code = Some (generate_code 123456),
          req_new_password = None\<rparr>"
        10]
    raises
  show ?thesis by auto
qed

end
